theory Spec2Isabelle
  imports Main "HOL-Library.Word" "HOL-Library.AList"
begin

section \<open>Common data\<close>

type_synonym byte = "8 word"

text \<open>A \<^verbatim>\<open>boost::asio::const_buffer\<close> is read only through its size and its bytes:
  \<^verbatim>\<open>buffer_size\<close> is the length of the list.\<close>

type_synonym buffer = "byte list"

text \<open>The failures of the code. Both files fail only through \<^verbatim>\<open>assert\<close>, taken
  as compiled in (a failed assertion ends the call);
  \<open>OutOfBoundsRead\<close> marks a \<^verbatim>\<open>memcpy\<close> that would read past its source, and
  \<open>MalformedFrame\<close> is the name the specification's error taxonomy gives to a frame
  that is too short (no statement of the sources produces it).\<close>

datatype error = AssertionFailed | OutOfBoundsRead | MalformedFrame

text \<open>A \<^verbatim>\<open>std::map\<close> is kept as an association list; \<^verbatim>\<open>find\<close> is \<^const>\<open>map_of\<close>,
  and \<^verbatim>\<open>m[k]\<close> inserts a value-initialised entry when the key is absent and returns
  the entry.\<close>

definition map_subscript :: "('k \<times> 'v) list \<Rightarrow> 'k \<Rightarrow> 'v \<Rightarrow> ('k \<times> 'v) list \<times> 'v" where
  "map_subscript m k dflt =
     (case map_of m k of
        Some v \<Rightarrow> (m, v)
      | None \<Rightarrow> (AList.update k dflt m, dflt))"

text \<open>\<^verbatim>\<open>m[k] = v\<close>: subscript, then assignment through the returned reference.\<close>

definition map_assign :: "('k \<times> 'v) list \<Rightarrow> 'k \<Rightarrow> 'v \<Rightarrow> 'v \<Rightarrow> ('k \<times> 'v) list" where
  "map_assign m k dflt v = AList.update k v (fst (map_subscript m k dflt))"

section \<open>The switch (switch.cpp)\<close>

text \<open>A \<^verbatim>\<open>port_type\<close> is a pointer to a port; \<open>0\<close> is the null pointer, which
  \<^verbatim>\<open>assert(port)\<close> refuses.\<close>

type_synonym port_type = nat

definition null_port :: port_type where
  "null_port = 0"

text \<open>\<^verbatim>\<open>ethernet_address_type\<close> is an array of \<^verbatim>\<open>static_size\<close> bytes.\<close>

type_synonym ethernet_address_type = "byte list"

definition static_size :: nat where
  "static_size = 6"

datatype routing_method = RM_HUB | RM_SWITCH

record switch_ =
  m_routing_method :: routing_method
  m_ports :: "port_type list"
  m_ethernet_address_map :: "(ethernet_address_type \<times> port_type) list"

text \<open>\<^verbatim>\<open>port->write(data)\<close> is the port's own capability; the model records each call,
  in order, as the pair of the port and the bytes handed to it.\<close>

type_synonym port_write = "port_type \<times> buffer"

definition send_data_to :: "port_type \<Rightarrow> buffer \<Rightarrow> port_write list" where
  "send_data_to port data = [(port, data)]"

text \<open>The \<^verbatim>\<open>BOOST_FOREACH\<close> loop of \<^verbatim>\<open>send_data_from\<close> over \<^verbatim>\<open>m_ports\<close>.\<close>

fun send_data_from_ports :: "port_type list \<Rightarrow> port_type \<Rightarrow> buffer \<Rightarrow> port_write list" where
  "send_data_from_ports [] source_port data = []"
| "send_data_from_ports (port # ports) source_port data =
     (if source_port \<noteq> port then send_data_to port data else [])
       @ send_data_from_ports ports source_port data"

definition send_data_from :: "switch_ \<Rightarrow> port_type \<Rightarrow> buffer \<Rightarrow> port_write list" where
  "send_data_from s source_port data = send_data_from_ports (m_ports s) source_port data"

text \<open>\<^verbatim>\<open>std::memcpy(dst, src, n)\<close> into a fresh array of \<open>n\<close> bytes: byte \<open>i\<close> of the
  result is byte \<open>i\<close> of the source. Reading past the end of the source is undefined in
  C++; here it is a failure of its own.\<close>

definition memcpy :: "buffer \<Rightarrow> nat \<Rightarrow> error + byte list" where
  "memcpy src n =
     (if n \<le> length src then Inr (map (\<lambda>i. src ! i) [0..<n]) else Inl OutOfBoundsRead)"

definition to_ethernet_address :: "buffer \<Rightarrow> error + ethernet_address_type" where
  "to_ethernet_address buf =
     (if length buf = static_size then memcpy buf static_size else Inl AssertionFailed)"

text \<open>Modelled from the spec: \<^verbatim>\<open>asiotap::osi::const_helper<ethernet_frame>\<close>
  (asiotap/osi/ethernet_helper.hpp) is not among the sources. The specification
  describes the header it parses as a 6-byte destination followed by a 6-byte source,
  the rest of the frame being payload; \<open>target\<close> and \<open>sender\<close> are those two slices of
  the frame, and the header so described is 12 bytes long.\<close>

definition target :: "buffer \<Rightarrow> buffer" where
  "target data = take 6 data"

definition sender :: "buffer \<Rightarrow> buffer" where
  "sender data = take 6 (drop 6 data)"


text \<open>\<^verbatim>\<open>switch_::receive_data\<close>. The result is the switch afterwards and the writes made
  to the ports, or the failed assertion. In the \<^verbatim>\<open>RM_SWITCH\<close> case the source looks
  the target up and then does nothing in either branch (both hold only a
  \<^verbatim>\<open>TODO: Implement\<close> comment).\<close>

definition receive_data :: "switch_ \<Rightarrow> port_type \<Rightarrow> buffer \<Rightarrow> error + (switch_ \<times> port_write list)" where
  "receive_data s port data =
     (if port = null_port then Inl AssertionFailed
      else case m_routing_method s of
        RM_HUB \<Rightarrow> Inr (s, send_data_from s port data)
      | RM_SWITCH \<Rightarrow>
          (case to_ethernet_address (sender data) of
             Inl e \<Rightarrow> Inl e
           | Inr sender_address \<Rightarrow>
               let s' = s\<lparr>m_ethernet_address_map :=
                          map_assign (m_ethernet_address_map s) sender_address null_port port\<rparr>
               in (case to_ethernet_address (target data) of
                     Inl e \<Rightarrow> Inl e
                   | Inr target_address \<Rightarrow>
                       let target_entry = map_of (m_ethernet_address_map s') target_address
                       in Inr (s', if target_entry \<noteq> None then [] else []))))"

text \<open>The writes of a call; a failed call has written nothing.\<close>

definition writes_of :: "error + (switch_ \<times> port_write list) \<Rightarrow> port_write list" where
  "writes_of r = (case r of Inl e \<Rightarrow> [] | Inr (s, ws) \<Rightarrow> ws)"

text \<open>The address table holds at most one port for an address: no key occurs twice.\<close>

definition single_port_per_address :: "(ethernet_address_type \<times> port_type) list \<Rightarrow> bool" where
  "single_port_per_address m = distinct (map fst m)"

section \<open>The FSCP socket (internal/fscp/socket.hpp)\<close>

text \<open>An \<^verbatim>\<open>Endpoint\<close> is a UDP endpoint: an IP address and a port number.\<close>

type_synonym Endpoint = "32 word \<times> 16 word"

text \<open>Modelled from the spec: endpoint_context.hpp (the class \<^verbatim>\<open>EndpointContext\<close> and
  its \<^verbatim>\<open>get_next_hello_request_number\<close>) is not among the sources. The specification
  gives the context three fields and calls \<open>next_hello_number\<close> a 32-bit counter,
  unique per generated HELLO request, that wraps on overflow: each request takes the
  current value and leaves the counter one higher, modulo \<open>2 ^ 32\<close>. A fresh context
  counts from 0, is in state \<open>UNKNOWN\<close> and has no certificate.\<close>

datatype session_state = UNKNOWN | HELLO_SENT | PRESENTED | TRUSTED

record EndpointContext =
  next_hello_number :: "32 word"
  session_state :: session_state
  peer_signature_certificate :: "buffer option"

definition EndpointContext_new :: EndpointContext where
  "EndpointContext_new =
     \<lparr>next_hello_number = 0, session_state = UNKNOWN, peer_signature_certificate = None\<rparr>"

definition get_next_hello_request_number :: "EndpointContext \<Rightarrow> 32 word \<times> EndpointContext" where
  "get_next_hello_request_number c =
     (next_hello_number c, c\<lparr>next_hello_number := next_hello_number c + 1\<rparr>)"

text \<open>The numbers of \<open>n\<close> HELLO requests generated one after the other from a context.\<close>

fun hello_request_numbers :: "nat \<Rightarrow> EndpointContext \<Rightarrow> 32 word list" where
  "hello_request_numbers 0 c = []"
| "hello_request_numbers (Suc n) c =
     fst (get_next_hello_request_number c)
       # hello_request_numbers n (snd (get_next_hello_request_number c))"

text \<open>Modelled from the spec: message.hpp (\<^verbatim>\<open>write_fscp_hello_request_message\<close>) is not
  among the sources. The specification fixes the wire format of a HELLO as a 1-byte
  message type followed by the 4-byte request number (big-endian here), and requires
  that a call with a null buffer returns the size the encoding needs. A buffer that is
  too small is left alone and 0 is returned, the value \<^verbatim>\<open>async_greet\<close> asserts
  against.\<close>

definition MESSAGE_TYPE_HELLO_REQUEST :: byte where
  "MESSAGE_TYPE_HELLO_REQUEST = 0"

definition hello_request_bytes :: "32 word \<Rightarrow> byte list" where
  "hello_request_bytes unique_number =
     [MESSAGE_TYPE_HELLO_REQUEST,
      ucast (drop_bit 24 unique_number), ucast (drop_bit 16 unique_number),
      ucast (drop_bit 8 unique_number), ucast unique_number]"

definition write_fscp_hello_request_message ::
    "buffer option \<Rightarrow> nat \<Rightarrow> 32 word \<Rightarrow> nat \<times> buffer option" where
  "write_fscp_hello_request_message buf buf_len unique_number =
     (case buf of
        None \<Rightarrow> (5, None)
      | Some b \<Rightarrow>
          if buf_len < 5 \<or> length b < buf_len then (0, Some b)
          else (5, Some (hello_request_bytes unique_number @ drop 5 b)))"

text \<open>A \<^verbatim>\<open>boost::system::error_code\<close> is its integer value; 0 is success.\<close>

type_synonym error_code = int

text \<open>What \<^verbatim>\<open>async_greet\<close> hands to \<^verbatim>\<open>m_socket.async_send_to\<close>: the buffer, the
  destination and the completion lambda, which takes the error code and the number of
  bytes transferred.\<close>

record 'r send_to_operation =
  op_buffer :: buffer
  op_destination :: Endpoint
  op_completion :: "error_code \<Rightarrow> nat \<Rightarrow> 'r"

record Socket =
  m_endpoint_contexts :: "(Endpoint \<times> EndpointContext) list"

text \<open>\<^verbatim>\<open>return m_endpoint_contexts[endpoint];\<close> The reference returned is the entry of
  the map under \<open>endpoint\<close>; the model returns the socket afterwards and the entry's
  value.\<close>

definition get_endpoint_context_for :: "Socket \<Rightarrow> Endpoint \<Rightarrow> Socket \<times> EndpointContext" where
  "get_endpoint_context_for s endpoint =
     (let (m, c) = map_subscript (m_endpoint_contexts s) endpoint EndpointContext_new
      in (s\<lparr>m_endpoint_contexts := m\<rparr>, c))"

text \<open>\<^verbatim>\<open>Socket::async_greet\<close>. The context is used through the reference into the map,
  so the counter's new value is stored under \<open>destination\<close>. The transmit buffer is
  \<^verbatim>\<open>std::vector<char>(required_size)\<close>: that many zero bytes; the source sends it as
  allocated. The result is the socket afterwards and the send it started.\<close>

definition async_greet ::
    "Socket \<Rightarrow> Endpoint \<Rightarrow> (error_code \<Rightarrow> nat \<Rightarrow> 'r) \<Rightarrow> error + (Socket \<times> 'r send_to_operation)" where
  "async_greet s destination handler =
     (let (s1, endpoint_context) = get_endpoint_context_for s destination;
          (unique_number, endpoint_context') = get_next_hello_request_number endpoint_context;
          s2 = s1\<lparr>m_endpoint_contexts :=
                    AList.update destination endpoint_context' (m_endpoint_contexts s1)\<rparr>;
          required_size = fst (write_fscp_hello_request_message None 0 unique_number)
      in if required_size = 0 then Inl AssertionFailed
         else
           let buf = replicate required_size (0 :: byte)
           in Inr (s2, \<lparr>op_buffer = buf, op_destination = destination,
                        op_completion = (\<lambda>ec bytes_transferred. handler ec bytes_transferred)\<rparr>))"

section \<open>Properties of the switch\<close>

lemma send_data_from_ports_filter:
  "send_data_from_ports ports source_port data =
     map (\<lambda>p. (p, data)) (filter (\<lambda>p. p \<noteq> source_port) ports)"
  by (induction ports) (auto simp: send_data_to_def)

lemma map_assign_update: "map_assign m k dflt v = AList.update k v m"
  by (induction m) (auto simp: map_assign_def map_subscript_def split: option.splits)

lemma memcpy_whole: "memcpy src (length src) = Inr src"
  by (simp add: memcpy_def map_nth)

lemma to_ethernet_address_exact:
  "length buf = 6 \<Longrightarrow> to_ethernet_address buf = Inr buf"
  using memcpy_whole [of buf] by (simp add: to_ethernet_address_def static_size_def)

lemma receive_data_hub:
  "m_routing_method s = RM_HUB \<Longrightarrow> port \<noteq> null_port \<Longrightarrow>
   receive_data s port data =
     Inr (s, map (\<lambda>p. (p, data)) (filter (\<lambda>p. p \<noteq> port) (m_ports s)))"
  by (simp add: receive_data_def send_data_from_def send_data_from_ports_filter)

lemma length_sender: "12 \<le> length data \<Longrightarrow> length (sender data) = 6"
  by (simp add: sender_def)

lemma length_target: "6 \<le> length data \<Longrightarrow> length (target data) = 6"
  by (simp add: target_def)

lemma receive_data_switch:
  "m_routing_method s = RM_SWITCH \<Longrightarrow> port \<noteq> null_port \<Longrightarrow> 12 \<le> length data \<Longrightarrow>
   receive_data s port data =
     Inr (s\<lparr>m_ethernet_address_map :=
              AList.update (sender data) port (m_ethernet_address_map s)\<rparr>, [])"
  by (simp add: receive_data_def to_ethernet_address_exact length_sender length_target
      map_assign_update Let_def)

lemma receive_data_switch_writes:
  "m_routing_method s = RM_SWITCH \<Longrightarrow> writes_of (receive_data s port data) = []"
  by (simp add: receive_data_def writes_of_def Let_def split: sum.splits)

lemma receive_data_table:
  "receive_data s port data = Inr (s', ws) \<Longrightarrow>
   m_ethernet_address_map s' = m_ethernet_address_map s \<or>
   (\<exists>a. m_ethernet_address_map s' = AList.update a port (m_ethernet_address_map s))"
  by (auto simp: receive_data_def Let_def map_assign_update
      split: if_splits routing_method.splits sum.splits)

subsection \<open>Hub mode\<close>

text \<open>C3: in HUB mode every frame received on a (non-null) port is written, unmodified,
  to every port of the switch except the source port, in the order of the port list,
  whatever the address table holds; the switch, its address table included, is left as
  it was.\<close>

theorem hub_mode_floods:
  "m_routing_method s = RM_HUB \<Longrightarrow> port \<noteq> null_port \<Longrightarrow>
   receive_data s port data =
     Inr (s, map (\<lambda>p. (p, data)) (filter (\<lambda>p. p \<noteq> port) (m_ports s)))"
  by (rule receive_data_hub)

theorem hub_mode_floods_witness:
  "receive_data
     \<lparr>m_routing_method = RM_HUB, m_ports = [1, 2, 3],
      m_ethernet_address_map = [([2, 0, 0, 0, 0, 10], 2)]\<rparr>
     1 [2, 0, 0, 0, 0, 10, 2, 0, 0, 0, 0, 11, 8, 0, 255] =
   Inr (\<lparr>m_routing_method = RM_HUB, m_ports = [1, 2, 3],
         m_ethernet_address_map = [([2, 0, 0, 0, 0, 10], 2)]\<rparr>,
        [(2, [2, 0, 0, 0, 0, 10, 2, 0, 0, 0, 0, 11, 8, 0, 255]),
         (3, [2, 0, 0, 0, 0, 10, 2, 0, 0, 0, 0, 11, 8, 0, 255])])"
  using hub_mode_floods [of "\<lparr>m_routing_method = RM_HUB, m_ports = [1, 2, 3],
      m_ethernet_address_map = [([2, 0, 0, 0, 0, 10], 2)]\<rparr>" 1
      "[2, 0, 0, 0, 0, 10, 2, 0, 0, 0, 0, 11, 8, 0, 255]"]
  by (simp add: null_port_def)

subsection \<open>No reflection\<close>

text \<open>C6: whatever the routing method, no write of a call to \<open>receive_data\<close> goes to the
  port the frame came from, and every write carries the frame as received.\<close>

theorem never_reflected:
  "receive_data s port data = Inr (s', ws) \<Longrightarrow> (p, d) \<in> set ws \<Longrightarrow> p \<noteq> port \<and> d = data"
proof (cases "m_routing_method s")
  case RM_HUB
  assume r: "receive_data s port data = Inr (s', ws)" and w: "(p, d) \<in> set ws"
  from r have "port \<noteq> null_port"
    by (auto simp: receive_data_def split: if_splits)
  with RM_HUB r have "ws = map (\<lambda>p. (p, data)) (filter (\<lambda>p. p \<noteq> port) (m_ports s))"
    by (auto simp: receive_data_hub)
  with w show ?thesis by auto
next
  case RM_SWITCH
  assume r: "receive_data s port data = Inr (s', ws)" and w: "(p, d) \<in> set ws"
  from RM_SWITCH have "writes_of (receive_data s port data) = []"
    by (rule receive_data_switch_writes)
  with r have "ws = []" by (simp add: writes_of_def)
  with w show ?thesis by simp
qed

theorem never_reflected_witness:
  "receive_data \<lparr>m_routing_method = RM_HUB, m_ports = [1, 2], m_ethernet_address_map = []\<rparr>
      1 [1, 2, 3] =
     Inr (\<lparr>m_routing_method = RM_HUB, m_ports = [1, 2], m_ethernet_address_map = []\<rparr>,
          [(2, [1, 2, 3])]) \<and>
   (2, [1, 2, 3]) \<in> set [(2 :: port_type, [1, 2, 3 :: byte])] \<and>
   (2 :: port_type) \<noteq> 1"
  using never_reflected [of "\<lparr>m_routing_method = RM_HUB, m_ports = [1, 2], m_ethernet_address_map = []\<rparr>"
      1 "[1, 2, 3]" "\<lparr>m_routing_method = RM_HUB, m_ports = [1, 2], m_ethernet_address_map = []\<rparr>"
      "[(2, [1, 2, 3])]" 2 "[1, 2, 3]"]
  by (simp add: receive_data_def send_data_from_def send_data_to_def null_port_def)

subsection \<open>Addresses\<close>

lemma to_ethernet_address_no_overread: "to_ethernet_address buf \<noteq> Inl OutOfBoundsRead"
  by (simp add: to_ethernet_address_def memcpy_def)

text \<open>C10: for a buffer of exactly \<open>static_size\<close> (6) bytes, \<open>to_ethernet_address\<close>
  returns the address whose bytes are the buffer's bytes in order, and the copy of
  \<open>static_size\<close> bytes does not read past the buffer; a buffer of any other size fails
  the assertion, which comes before the copy.\<close>

theorem to_ethernet_address_copies:
  "(length buf = static_size \<longrightarrow>
      to_ethernet_address buf = Inr buf \<and> memcpy buf static_size \<noteq> Inl OutOfBoundsRead) \<and>
   (length buf \<noteq> static_size \<longrightarrow> to_ethernet_address buf = Inl AssertionFailed) \<and>
   static_size = 6"
proof (intro conjI impI)
  assume "length buf = static_size"
  then show "to_ethernet_address buf = Inr buf"
    by (simp add: to_ethernet_address_exact static_size_def)
next
  assume "length buf = static_size"
  then show "memcpy buf static_size \<noteq> Inl OutOfBoundsRead"
    by (simp add: memcpy_def)
next
  assume "length buf \<noteq> static_size"
  then show "to_ethernet_address buf = Inl AssertionFailed"
    by (simp add: to_ethernet_address_def)
next
  show "static_size = 6"
    by (simp add: static_size_def)
qed

theorem to_ethernet_address_copies_witness:
  "length [2, 0, 0, 0, 0, 10 :: byte] = static_size \<and>
   to_ethernet_address [2, 0, 0, 0, 0, 10] = Inr [2, 0, 0, 0, 0, 10] \<and>
   length [2, 0, 0, 0, 0 :: byte] \<noteq> static_size \<and>
   to_ethernet_address [2, 0, 0, 0, 0] = Inl AssertionFailed"
proof -
  have six: "length [2, 0, 0, 0, 0, 10 :: byte] = static_size"
    by (simp add: static_size_def)
  have five: "length [2, 0, 0, 0, 0 :: byte] \<noteq> static_size"
    by (simp add: static_size_def)
  from six five to_ethernet_address_copies [of "[2, 0, 0, 0, 0, 10]"]
    to_ethernet_address_copies [of "[2, 0, 0, 0, 0]"]
  show ?thesis by blast
qed

lemma single_port_unique:
  "single_port_per_address m \<Longrightarrow> (a, p) \<in> set m \<Longrightarrow> (a, q) \<in> set m \<Longrightarrow> p = q"
  unfolding single_port_per_address_def by (rule eq_key_imp_eq_value)

subsection \<open>Switch mode\<close>

text \<open>C5: in SWITCH mode a call of \<open>receive_data\<close> on a (non-null) port with a frame
  that holds both addresses returns with the table changed in exactly one place: the
  frame's source address now maps to the source port, whatever it mapped to before,
  and the same call again changes nothing more. And whatever the call, a table that
  holds at most one port for each address still does so afterwards.\<close>

theorem switch_mode_learns:
  "(m_routing_method s = RM_SWITCH \<and> port \<noteq> null_port \<and> 12 \<le> length data \<longrightarrow>
      (\<exists>s' ws. receive_data s port data = Inr (s', ws) \<and>
         map_of (m_ethernet_address_map s') =
           (map_of (m_ethernet_address_map s))(sender data \<mapsto> port) \<and>
         receive_data s' port data = Inr (s', ws))) \<and>
   (single_port_per_address (m_ethernet_address_map s) \<and>
    receive_data s port data = Inr (s1, ws1) \<longrightarrow>
      single_port_per_address (m_ethernet_address_map s1))"
proof (intro conjI impI)
  assume a: "m_routing_method s = RM_SWITCH \<and> port \<noteq> null_port \<and> 12 \<le> length data"
  let ?s' = "s\<lparr>m_ethernet_address_map :=
                 AList.update (sender data) port (m_ethernet_address_map s)\<rparr>"
  from a have 1: "receive_data s port data = Inr (?s', [])"
    by (simp add: receive_data_switch)
  from a have "receive_data ?s' port data =
      Inr (?s'\<lparr>m_ethernet_address_map :=
                 AList.update (sender data) port (m_ethernet_address_map ?s')\<rparr>, [])"
    by (intro receive_data_switch) simp_all
  then have 2: "receive_data ?s' port data = Inr (?s', [])"
    by (simp add: AList.update_last)
  have 3: "map_of (m_ethernet_address_map ?s') =
      (map_of (m_ethernet_address_map s))(sender data \<mapsto> port)"
    by (simp add: AList.update_conv')
  from 1 2 3 show "\<exists>s' ws. receive_data s port data = Inr (s', ws) \<and>
         map_of (m_ethernet_address_map s') =
           (map_of (m_ethernet_address_map s))(sender data \<mapsto> port) \<and>
         receive_data s' port data = Inr (s', ws)"
    by blast
next
  assume b: "single_port_per_address (m_ethernet_address_map s) \<and>
    receive_data s port data = Inr (s1, ws1)"
  then have "m_ethernet_address_map s1 = m_ethernet_address_map s \<or>
      (\<exists>a. m_ethernet_address_map s1 = AList.update a port (m_ethernet_address_map s))"
    using receive_data_table by blast
  with b show "single_port_per_address (m_ethernet_address_map s1)"
    by (auto simp: single_port_per_address_def AList.distinct_update)
qed

theorem switch_mode_learns_witness:
  "m_routing_method \<lparr>m_routing_method = RM_SWITCH, m_ports = [1, 2],
      m_ethernet_address_map = [([2, 0, 0, 0, 0, 10], 2)]\<rparr> = RM_SWITCH \<and>
   (1 :: port_type) \<noteq> null_port \<and>
   12 \<le> length [2, 0, 0, 0, 0, 11, 2, 0, 0, 0, 0, 10, 8, 0 :: byte] \<and>
   sender [2, 0, 0, 0, 0, 11, 2, 0, 0, 0, 0, 10, 8, 0] = [2, 0, 0, 0, 0, 10] \<and>
   receive_data \<lparr>m_routing_method = RM_SWITCH, m_ports = [1, 2],
      m_ethernet_address_map = [([2, 0, 0, 0, 0, 10], 2)]\<rparr> 1
      [2, 0, 0, 0, 0, 11, 2, 0, 0, 0, 0, 10, 8, 0] =
     Inr (\<lparr>m_routing_method = RM_SWITCH, m_ports = [1, 2],
           m_ethernet_address_map = [([2, 0, 0, 0, 0, 10], 1)]\<rparr>, []) \<and>
   single_port_per_address [([2, 0, 0, 0, 0, 10 :: byte], 2 :: port_type)] \<and>
   single_port_per_address [([2, 0, 0, 0, 0, 10 :: byte], 1 :: port_type)]"
  using switch_mode_learns [of "\<lparr>m_routing_method = RM_SWITCH, m_ports = [1, 2],
      m_ethernet_address_map = [([2, 0, 0, 0, 0, 10], 2)]\<rparr>" 1
      "[2, 0, 0, 0, 0, 11, 2, 0, 0, 0, 0, 10, 8, 0]"
      "\<lparr>m_routing_method = RM_SWITCH, m_ports = [1, 2],
           m_ethernet_address_map = [([2, 0, 0, 0, 0, 10], 1)]\<rparr>" "[]"]
  by (simp add: receive_data_switch sender_def null_port_def single_port_per_address_def)

subsection \<open>Short frames\<close>





subsection \<open>Forwarding in switch mode\<close>

text \<open>C1: the specification's scenario, run on the code. Address \<open>02:00:00:00:00:0a\<close>
  sends a frame on port 1 to an address the table does not know: the address is
  learned, and the frame is written to no port (the claim: flooded to ports 2 and 3).
  A frame for \<open>02:00:00:00:00:0a\<close> then arrives on port 2: it is written to no port
  either (the claim: forwarded to port 1 only).\<close>

theorem switch_mode_forwards_nothing:
  "receive_data \<lparr>m_routing_method = RM_SWITCH, m_ports = [1, 2, 3], m_ethernet_address_map = []\<rparr>
      1 [2, 0, 0, 0, 0, 11, 2, 0, 0, 0, 0, 10, 8, 0] =
     Inr (\<lparr>m_routing_method = RM_SWITCH, m_ports = [1, 2, 3],
           m_ethernet_address_map = [([2, 0, 0, 0, 0, 10], 1)]\<rparr>, []) \<and>
   receive_data \<lparr>m_routing_method = RM_SWITCH, m_ports = [1, 2, 3],
           m_ethernet_address_map = [([2, 0, 0, 0, 0, 10], 1)]\<rparr>
      2 [2, 0, 0, 0, 0, 10, 2, 0, 0, 0, 0, 11, 8, 0] =
     Inr (\<lparr>m_routing_method = RM_SWITCH, m_ports = [1, 2, 3],
           m_ethernet_address_map = [([2, 0, 0, 0, 0, 10], 1), ([2, 0, 0, 0, 0, 11], 2)]\<rparr>, [])"
  by (simp add: receive_data_switch sender_def null_port_def)

section \<open>Properties of the socket\<close>

subsection \<open>Endpoint contexts\<close>

lemma get_endpoint_context_for_absent:
  "map_of (m_endpoint_contexts s) endpoint = None \<Longrightarrow>
   get_endpoint_context_for s endpoint =
     (s\<lparr>m_endpoint_contexts :=
          AList.update endpoint EndpointContext_new (m_endpoint_contexts s)\<rparr>,
      EndpointContext_new)"
  by (simp add: get_endpoint_context_for_def map_subscript_def)

lemma get_endpoint_context_for_present:
  "map_of (m_endpoint_contexts s) endpoint = Some c \<Longrightarrow>
   get_endpoint_context_for s endpoint = (s, c)"
  by (simp add: get_endpoint_context_for_def map_subscript_def)

lemma get_endpoint_context_for_entry:
  "get_endpoint_context_for s endpoint = (s1, c1) \<Longrightarrow>
   map_of (m_endpoint_contexts s1) endpoint = Some c1"
  by (cases "map_of (m_endpoint_contexts s) endpoint")
     (auto simp: get_endpoint_context_for_absent get_endpoint_context_for_present
        AList.update_conv')

text \<open>C9: a call of \<open>get_endpoint_context_for\<close> with an endpoint the map does not hold
  adds a fresh context under that endpoint and returns it; a call with an endpoint the
  map holds changes nothing. Either way the map then holds the returned context under
  the endpoint, and a second call with the same endpoint returns the same context and
  leaves the socket, hence the map, as the first call left it.\<close>

theorem endpoint_context_created_once:
  "get_endpoint_context_for s endpoint = (s1, c1) \<Longrightarrow>
   (map_of (m_endpoint_contexts s) endpoint = None \<longrightarrow>
      c1 = EndpointContext_new \<and>
      m_endpoint_contexts s1 =
        AList.update endpoint EndpointContext_new (m_endpoint_contexts s)) \<and>
   (map_of (m_endpoint_contexts s) endpoint \<noteq> None \<longrightarrow> s1 = s) \<and>
   map_of (m_endpoint_contexts s1) endpoint = Some c1 \<and>
   get_endpoint_context_for s1 endpoint = (s1, c1)"
proof -
  assume g: "get_endpoint_context_for s endpoint = (s1, c1)"
  then have e: "map_of (m_endpoint_contexts s1) endpoint = Some c1"
    by (rule get_endpoint_context_for_entry)
  then have again: "get_endpoint_context_for s1 endpoint = (s1, c1)"
    by (rule get_endpoint_context_for_present)
  have absent: "map_of (m_endpoint_contexts s) endpoint = None \<longrightarrow>
      c1 = EndpointContext_new \<and>
      m_endpoint_contexts s1 =
        AList.update endpoint EndpointContext_new (m_endpoint_contexts s)"
    using g by (auto simp: get_endpoint_context_for_absent)
  have present: "map_of (m_endpoint_contexts s) endpoint \<noteq> None \<longrightarrow> s1 = s"
    using g by (auto simp: get_endpoint_context_for_present)
  from absent present e again show ?thesis by blast
qed

theorem endpoint_context_created_once_witness:
  "get_endpoint_context_for \<lparr>m_endpoint_contexts = []\<rparr> (2130706433, 12001) =
     (\<lparr>m_endpoint_contexts = [((2130706433, 12001), EndpointContext_new)]\<rparr>,
      EndpointContext_new) \<and>
   get_endpoint_context_for
     \<lparr>m_endpoint_contexts = [((2130706433, 12001), EndpointContext_new)]\<rparr>
     (2130706433, 12001) =
     (\<lparr>m_endpoint_contexts = [((2130706433, 12001), EndpointContext_new)]\<rparr>,
      EndpointContext_new)"
  using endpoint_context_created_once [of "\<lparr>m_endpoint_contexts = []\<rparr>" "(2130706433, 12001)"
      "\<lparr>m_endpoint_contexts = [((2130706433, 12001), EndpointContext_new)]\<rparr>"
      EndpointContext_new]
  by (simp add: get_endpoint_context_for_absent)

subsection \<open>HELLO request numbers\<close>

lemma length_hello_request_numbers: "length (hello_request_numbers n c) = n"
  by (induction n arbitrary: c) simp_all

lemma nth_hello_request_numbers:
  "i < n \<Longrightarrow> hello_request_numbers n c ! i = next_hello_number c + of_nat i"
proof (induction n arbitrary: c i)
  case 0
  then show ?case by simp
next
  case (Suc n)
  show ?case
  proof (cases i)
    case 0
    then show ?thesis by (simp add: get_next_hello_request_number_def)
  next
    case (Suc j)
    with Suc.prems have "j < n" by simp
    then have "hello_request_numbers n (snd (get_next_hello_request_number c)) ! j =
        next_hello_number (snd (get_next_hello_request_number c)) + of_nat j"
      by (rule Suc.IH)
    with Suc show ?thesis by (simp add: get_next_hello_request_number_def)
  qed
qed

lemma word32_of_nat_inj:
  "i < 2 ^ 32 \<Longrightarrow> j < 2 ^ 32 \<Longrightarrow> (of_nat i :: 32 word) = of_nat j \<Longrightarrow> i = j"
  by (simp add: word_of_nat_eq_iff take_bit_nat_eq_self)

lemma distinct_hello_request_numbers:
  assumes "n \<le> 2 ^ 32"
  shows "distinct (hello_request_numbers n c)"
proof -
  have "hello_request_numbers n c ! i \<noteq> hello_request_numbers n c ! j"
    if "i < n" "j < n" "i \<noteq> j" for i j
  proof
    assume "hello_request_numbers n c ! i = hello_request_numbers n c ! j"
    with that have "(of_nat i :: 32 word) = of_nat j"
      by (simp add: nth_hello_request_numbers)
    moreover from that assms have "i < 2 ^ 32" "j < 2 ^ 32" by simp_all
    ultimately have "i = j" by (metis word32_of_nat_inj)
    with that show False by simp
  qed
  then show ?thesis
    by (simp add: distinct_conv_nth length_hello_request_numbers)
qed

lemma word_less_successor: "w \<noteq> - 1 \<Longrightarrow> (w :: 32 word) < w + 1"
  using inc_less_eq_self_iff_eq [of w] by (simp add: not_le)

lemma hello_request_numbers_3:
  "hello_request_numbers 3 c =
     [next_hello_number c, next_hello_number c + 1, next_hello_number c + 2]"
  unfolding numeral_3_eq_3 by (simp add: get_next_hello_request_number_def)

subsection \<open>Greeting\<close>

lemma async_greet_result:
  "async_greet s destination handler =
     Inr ((fst (get_endpoint_context_for s destination))
            \<lparr>m_endpoint_contexts :=
               AList.update destination
                 (snd (get_next_hello_request_number
                    (snd (get_endpoint_context_for s destination))))
                 (m_endpoint_contexts (fst (get_endpoint_context_for s destination)))\<rparr>,
          \<lparr>op_buffer = replicate 5 0, op_destination = destination,
             op_completion = handler\<rparr>)"
  by (simp add: async_greet_def write_fscp_hello_request_message_def Let_def
      split: prod.splits)

text \<open>C8: for every request number, the call with a null buffer returns the length of
  the encoded HELLO, a buffer of exactly that size takes the whole encoding, and the
  transmit buffer \<open>async_greet\<close> allocates has exactly the size the null-buffer call
  returned for the number it took from the destination's context.\<close>

theorem hello_probe_exact:
  "fst (write_fscp_hello_request_message None 0 unique_number) =
     length (hello_request_bytes unique_number) \<and>
   write_fscp_hello_request_message
       (Some (replicate (fst (write_fscp_hello_request_message None 0 unique_number)) 0))
       (fst (write_fscp_hello_request_message None 0 unique_number)) unique_number =
     (length (hello_request_bytes unique_number), Some (hello_request_bytes unique_number)) \<and>
   (\<exists>s' operation. async_greet s destination handler = Inr (s', operation) \<and>
      length (op_buffer operation) =
        fst (write_fscp_hello_request_message None 0
               (next_hello_number (snd (get_endpoint_context_for s destination)))))"
  by (simp add: async_greet_result write_fscp_hello_request_message_def
      hello_request_bytes_def)

subsection \<open>Numbers taken by successive greets\<close>

lemma snd_get_endpoint_context_for:
  "snd (get_endpoint_context_for s endpoint) =
     (case map_of (m_endpoint_contexts s) endpoint of
        None \<Rightarrow> EndpointContext_new
      | Some c \<Rightarrow> c)"
  by (simp add: get_endpoint_context_for_def map_subscript_def split: option.splits)

lemma map_of_after_get_endpoint_context_for:
  "map_of (m_endpoint_contexts (fst (get_endpoint_context_for s endpoint))) =
     (map_of (m_endpoint_contexts s))(endpoint \<mapsto> snd (get_endpoint_context_for s endpoint))"
  by (auto simp: get_endpoint_context_for_def map_subscript_def AList.update_conv'
      split: option.splits)

lemma async_greet_next_number:
  "async_greet s e handler = Inr (s1, operation) \<Longrightarrow>
   snd (get_endpoint_context_for s1 e') =
     (if e' = e then snd (get_next_hello_request_number (snd (get_endpoint_context_for s e)))
      else snd (get_endpoint_context_for s e'))"
  by (auto simp: async_greet_result snd_get_endpoint_context_for AList.update_conv'
      map_of_after_get_endpoint_context_for)

text \<open>C7: each HELLO request of a context is numbered one more than the previous one
  modulo \<open>2 ^ 32\<close>: strictly greater than the previous number, except that after
  \<open>2 ^ 32 - 1\<close> the number wraps to 0; up to \<open>2 ^ 32\<close> requests generated one after the
  other have pairwise different numbers. The counter is the endpoint's own: a call of
  \<open>async_greet\<close> to an endpoint leaves that endpoint's next number one higher than the
  number it took, and leaves every other endpoint's next number as it was.\<close>

theorem hello_numbers_successive:
  "n \<le> 2 ^ 32 \<Longrightarrow> e' \<noteq> e \<Longrightarrow>
   distinct (hello_request_numbers n c) \<and>
   fst (get_next_hello_request_number (snd (get_next_hello_request_number c))) =
     fst (get_next_hello_request_number c) + 1 \<and>
   (fst (get_next_hello_request_number c) \<noteq> - 1 \<longrightarrow>
      fst (get_next_hello_request_number c) <
        fst (get_next_hello_request_number (snd (get_next_hello_request_number c)))) \<and>
   (fst (get_next_hello_request_number c) = - 1 \<longrightarrow>
      fst (get_next_hello_request_number (snd (get_next_hello_request_number c))) = 0) \<and>
   (\<exists>s1 operation. async_greet s e handler = Inr (s1, operation) \<and>
      fst (get_next_hello_request_number (snd (get_endpoint_context_for s1 e))) =
        fst (get_next_hello_request_number (snd (get_endpoint_context_for s e))) + 1 \<and>
      fst (get_next_hello_request_number (snd (get_endpoint_context_for s1 e'))) =
        fst (get_next_hello_request_number (snd (get_endpoint_context_for s e'))))"
proof -
  assume n: "n \<le> 2 ^ 32" and e: "e' \<noteq> e"
  obtain s1 operation where g: "async_greet s e handler = Inr (s1, operation)"
    by (simp add: async_greet_result)
  from g have same: "snd (get_endpoint_context_for s1 e) =
      snd (get_next_hello_request_number (snd (get_endpoint_context_for s e)))"
    by (simp add: async_greet_next_number)
  from g e have other: "snd (get_endpoint_context_for s1 e') = snd (get_endpoint_context_for s e')"
    by (simp add: async_greet_next_number)
  from n have d: "distinct (hello_request_numbers n c)"
    by (rule distinct_hello_request_numbers)
  have "fst (get_next_hello_request_number (snd (get_endpoint_context_for s1 e))) =
      fst (get_next_hello_request_number (snd (get_endpoint_context_for s e))) + 1"
    by (simp add: same get_next_hello_request_number_def)
  with g other d show ?thesis
    by (simp add: get_next_hello_request_number_def word_less_successor)
qed

theorem hello_numbers_successive_witness:
  "(3 :: nat) \<le> 2 ^ 32 \<and> ((2130706433, 12002) :: Endpoint) \<noteq> (2130706433, 12001) \<and>
   hello_request_numbers 3 (EndpointContext_new\<lparr>next_hello_number := 4294967294\<rparr>) =
     [4294967294, 4294967295, 0] \<and>
   distinct (hello_request_numbers 3 (EndpointContext_new\<lparr>next_hello_number := 4294967294\<rparr>)) \<and>
   fst (get_next_hello_request_number (EndpointContext_new\<lparr>next_hello_number := 4294967294\<rparr>))
     < fst (get_next_hello_request_number (snd (get_next_hello_request_number
         (EndpointContext_new\<lparr>next_hello_number := 4294967294\<rparr>))))"
  using hello_numbers_successive [of 3 "(2130706433, 12002)" "(2130706433, 12001)"
      "EndpointContext_new\<lparr>next_hello_number := 4294967294\<rparr>"]
  by (simp add: hello_request_numbers_3 get_next_hello_request_number_def)

subsection \<open>Completion of a greet\<close>

text \<open>C2: two greets of \<open>127.0.0.1:12001\<close> from a fresh socket, run on the code. Each
  starts a send of five zero bytes: the request number is taken from the context but
  never written into the buffer (the second request is number 1, whose encoding ends in
  1). The completion of the send is handed to the handler as it is: a send that
  succeeds with 5 bytes calls the handler with error code 0 and the byte count 5, with
  no HELLO-response involved.\<close>

theorem greet_completes_on_send:
  "async_greet \<lparr>m_endpoint_contexts = []\<rparr> (2130706433, 12001) Pair =
     Inr (\<lparr>m_endpoint_contexts =
             [((2130706433, 12001), EndpointContext_new\<lparr>next_hello_number := 1\<rparr>)]\<rparr>,
          \<lparr>op_buffer = [0, 0, 0, 0, 0], op_destination = (2130706433, 12001),
             op_completion = Pair\<rparr>) \<and>
   async_greet
     \<lparr>m_endpoint_contexts =
        [((2130706433, 12001), EndpointContext_new\<lparr>next_hello_number := 1\<rparr>)]\<rparr>
     (2130706433, 12001) Pair =
     Inr (\<lparr>m_endpoint_contexts =
             [((2130706433, 12001), EndpointContext_new\<lparr>next_hello_number := 2\<rparr>)]\<rparr>,
          \<lparr>op_buffer = [0, 0, 0, 0, 0], op_destination = (2130706433, 12001),
             op_completion = Pair\<rparr>) \<and>
   hello_request_bytes 1 = [0, 0, 0, 0, 1] \<and>
   op_completion
     \<lparr>op_buffer = [0, 0, 0, 0, 0], op_destination = (2130706433, 12001), op_completion = Pair\<rparr>
     0 5 = (0, 5)"
  by (simp add: async_greet_result get_endpoint_context_for_absent
      get_endpoint_context_for_present get_next_hello_request_number_def
      EndpointContext_new_def numeral_eq_Suc hello_request_bytes_def
      MESSAGE_TYPE_HELLO_REQUEST_def)

end
